theory Spec2Isabelle
  imports Main
begin

section \<open>Python values, exceptions and dictionaries\<close>

text \<open>
  The values that configuration entries and decoded JSON bodies can take. A dictionary
  is kept as an association list; the first binding of a key is the one looked up.
  Floating-point numbers are left out: no code path of \<^verbatim>\<open>onboard.py\<close> computes with them.
\<close>

datatype pyval =
    PNone
  | PBool bool
  | PInt int
  | PStr string
  | PList "pyval list"
  | PDict "(string \<times> pyval) list"

text \<open>Python truthiness, as tested by \<^verbatim>\<open>if value:\<close>.\<close>

fun truthy :: "pyval \<Rightarrow> bool" where
  "truthy PNone = False"
| "truthy (PBool b) = b"
| "truthy (PInt i) = (i \<noteq> 0)"
| "truthy (PStr s) = (s \<noteq> [])"
| "truthy (PList xs) = (xs \<noteq> [])"
| "truthy (PDict kvs) = (kvs \<noteq> [])"

text \<open>
  The exceptions that can arise. All of them derive from \<^verbatim>\<open>Exception\<close>, so a handler
  \<^verbatim>\<open>except Exception\<close> catches each one. \<open>HTTPError\<close> is what
  \<^verbatim>\<open>raise_for_status\<close> raises; \<open>RequestException\<close> stands for the other transport
  errors of the HTTP client (connection failure, timeout). \<open>RequestsJSONDecodeError\<close> is
  the client's own decode error, which derives both from its \<^verbatim>\<open>RequestException\<close> and
  from \<^verbatim>\<open>json.JSONDecodeError\<close>; \<open>JSONDecodeError\<close> is the standard library's alone.
\<close>

datatype exn =
    KeyError string
  | NameError string
  | UnboundLocalError string
  | ModuleNotFoundError string
  | AttributeError string
  | TypeError string
  | HTTPError nat
  | RequestException string
  | RequestsJSONDecodeError
  | JSONDecodeError
  | OtherError string

fun is_RequestException :: "exn \<Rightarrow> bool" where
  "is_RequestException (HTTPError c) = True"
| "is_RequestException (RequestException m) = True"
| "is_RequestException RequestsJSONDecodeError = True"
| "is_RequestException e = False"

fun is_JSONDecodeError :: "exn \<Rightarrow> bool" where
  "is_JSONDecodeError RequestsJSONDecodeError = True"
| "is_JSONDecodeError JSONDecodeError = True"
| "is_JSONDecodeError e = False"

text \<open>\<^verbatim>\<open>d[k]\<close> and \<^verbatim>\<open>d.get(k, default)\<close> on a dictionary with string keys.\<close>

definition subscript :: "(string \<rightharpoonup> 'a) \<Rightarrow> string \<Rightarrow> exn + 'a" where
  "subscript d k = (case d k of None \<Rightarrow> Inl (KeyError k) | Some v \<Rightarrow> Inr v)"

definition dict_get :: "(string \<rightharpoonup> 'a) \<Rightarrow> string \<Rightarrow> 'a \<Rightarrow> 'a" where
  "dict_get d k dflt = (case d k of None \<Rightarrow> dflt | Some v \<Rightarrow> v)"

text \<open>The same two operations on a value that came back from a service.\<close>

fun py_subscript :: "pyval \<Rightarrow> string \<Rightarrow> exn + pyval" where
  "py_subscript (PDict kvs) k = subscript (map_of kvs) k"
| "py_subscript v k = Inl (TypeError ''subscript'')"

fun py_get :: "pyval \<Rightarrow> string \<Rightarrow> pyval \<Rightarrow> exn + pyval" where
  "py_get (PDict kvs) k dflt = Inr (dict_get (map_of kvs) k dflt)"
| "py_get v k dflt = Inl (AttributeError ''get'')"

text \<open>
  Iterating over a value: a list yields its elements, a dictionary its keys, a string
  its characters; the other values are not iterable.
\<close>

fun py_iter :: "pyval \<Rightarrow> exn + pyval list" where
  "py_iter (PList xs) = Inr xs"
| "py_iter (PDict kvs) = Inr (map (\<lambda>kv. PStr (fst kv)) kvs)"
| "py_iter (PStr s) = Inr (map (\<lambda>c. PStr [c]) s)"
| "py_iter v = Inl (TypeError ''iter'')"

text \<open>
  The employee record is a dictionary of text fields; \<open>as_pyvals\<close> views it as Python
  values where a field is mixed with a configuration value.
\<close>

type_synonym user_data = "string \<rightharpoonup> string"
type_synonym config = "string \<rightharpoonup> pyval"

definition as_pyvals :: "user_data \<Rightarrow> config" where
  "as_pyvals ud = (\<lambda>k. map_option PStr (ud k))"


section \<open>Formatted text, log records and requests\<close>

text \<open>
  An f-string is kept as its sequence of parts: literal text, and the values and
  exceptions formatted into it.
\<close>

datatype fpart = Txt string | Fmt pyval | FmtExn exn

type_synonym ftext = "fpart list"

datatype level = INFO | WARNING | ERROR

record response =
  status_code :: nat
  json_result :: "exn + pyval"

text \<open>
  \<^verbatim>\<open>response.raise_for_status()\<close> of the HTTP client: it raises for the client-error
  and server-error status classes and for no other status.
\<close>

definition raise_for_status :: "response \<Rightarrow> exn + unit" where
  "raise_for_status r =
     (if 400 \<le> status_code r \<and> status_code r < 600 then Inl (HTTPError (status_code r))
      else Inr ())"

text \<open>
  What a run does that can be seen from outside, in order: the log records it emits
  and the requests it sends. A request is recorded when the call is made, whether or
  not the call then raises.
\<close>

datatype event =
    Logged level ftext
  | UsersInsert pyval pyval
  | GroupsInsert pyval pyval
  | HttpGet ftext "(string \<times> ftext) list" pyval
  | HttpPost ftext "(string \<times> ftext) list" pyval

text \<open>
  Everything outside the program: the process environment, the third-party modules
  that are installed, and what each external call answers (a value, or the exception
  it raises).
\<close>

record world =
  environ :: "string \<rightharpoonup> string"
  installed :: "string \<Rightarrow> bool"
  load_credentials :: "pyval \<Rightarrow> pyval \<Rightarrow> exn + unit"
  build_service :: "exn + unit"
  users_insert :: "pyval \<Rightarrow> pyval \<Rightarrow> exn + pyval"
  groups_insert :: "pyval \<Rightarrow> pyval \<Rightarrow> exn + pyval"
  jwt_encode :: "pyval \<Rightarrow> pyval \<Rightarrow> exn + string"
  http_get :: "ftext \<Rightarrow> (string \<times> ftext) list \<Rightarrow> pyval \<Rightarrow> exn + response"
  http_post :: "ftext \<Rightarrow> (string \<times> ftext) list \<Rightarrow> pyval \<Rightarrow> exn + response"

text \<open>
  A computation either returns a value or raises, and in both cases leaves the events
  it produced. \<open>andthen\<close> is sequencing of statements: an exception in the first
  statement skips the rest. \<open>try_except\<close> runs a handler on the exception of its body.
\<close>

type_synonym 'a comp = "(exn + 'a) \<times> event list"

definition ret :: "'a \<Rightarrow> 'a comp" where
  "ret x = (Inr x, [])"

definition lift :: "exn + 'a \<Rightarrow> 'a comp" where
  "lift r = (r, [])"

definition emit :: "event \<Rightarrow> unit comp" where
  "emit ev = (Inr (), [ev])"

definition call :: "event \<Rightarrow> exn + 'a \<Rightarrow> 'a comp" where
  "call ev answer = (answer, [ev])"

definition andthen :: "'a comp \<Rightarrow> ('a \<Rightarrow> 'b comp) \<Rightarrow> 'b comp" where
  "andthen m f =
     (case fst m of
        Inl e \<Rightarrow> (Inl e, snd m)
      | Inr x \<Rightarrow> (fst (f x), snd m @ snd (f x)))"

definition try_except :: "'a comp \<Rightarrow> (exn \<Rightarrow> 'a comp) \<Rightarrow> 'a comp" where
  "try_except m handler =
     (case fst m of
        Inl e \<Rightarrow> (fst (handler e), snd m @ snd (handler e))
      | Inr x \<Rightarrow> m)"

definition import_module :: "world \<Rightarrow> string \<Rightarrow> exn + unit" where
  "import_module w m = (if installed w m then Inr () else Inl (ModuleNotFoundError m))"

text \<open>
  The names bound at module level (lines 1 to 188): the four imports, the four
  configuration dictionaries and the four functions. None of the names used below is
  a builtin, so a name outside this list is unbound.
\<close>

definition module_globals :: "string list" where
  "module_globals =
     [''os'', ''json'', ''logging'', ''datetime'',
      ''GOOGLE_WORKSPACE_CONFIG'', ''ZOOM_CONFIG'', ''DROPBOX_CONFIG'', ''SLACK_CONFIG'',
      ''onboard_google_workspace'', ''onboard_zoom'', ''onboard_dropbox'',
      ''welcome_slack_user'']"

definition load_global :: "string \<Rightarrow> exn + unit" where
  "load_global n = (if n \<in> set module_globals then Inr () else Inl (NameError n))"

text \<open>
  Reading a local variable of a function: a name the function assigns somewhere, read
  where nothing is bound to it, raises. The name bound by \<^verbatim>\<open>except ... as e\<close> is bound
  in that clause only.
\<close>

definition read_local :: "'a option \<Rightarrow> string \<Rightarrow> exn + 'a" where
  "read_local binding n = (case binding of None \<Rightarrow> Inl (UnboundLocalError n) | Some v \<Rightarrow> Inr v)"

definition bearer_headers :: "fpart \<Rightarrow> (string \<times> ftext) list" where
  "bearer_headers token =
     [(''Authorization'', [Txt ''Bearer '', token]),
      (''Content-Type'', [Txt ''application/json''])]"


section \<open>The conferencing provider\<close>

text \<open>
  \<^verbatim>\<open>generate_jwt\<close> (lines 80 to 87): imports the token library, then builds the
  payload, whose expiry needs the names \<^verbatim>\<open>datetime\<close> and \<^verbatim>\<open>timedelta\<close>, then signs.
\<close>

definition generate_jwt :: "world \<Rightarrow> pyval \<Rightarrow> pyval \<Rightarrow> string comp" where
  "generate_jwt w api_key api_secret =
     andthen (lift (import_module w ''jwt'')) (\<lambda>u1.
     andthen (lift (load_global ''datetime'')) (\<lambda>u2.
     andthen (lift (load_global ''timedelta'')) (\<lambda>u3.
     lift (jwt_encode w api_key api_secret))))"

text \<open>
  \<^verbatim>\<open>any(user.get('email') == email for user in users)\<close>: stops at the first match;
  an element that is not a dictionary has no \<^verbatim>\<open>get\<close>.
\<close>

fun any_email :: "string \<Rightarrow> pyval list \<Rightarrow> exn + bool" where
  "any_email email [] = Inr False"
| "any_email email (u # us) =
     (case py_get u ''email'' PNone of
        Inl e \<Rightarrow> Inl e
      | Inr v \<Rightarrow> (if v = PStr email then Inr True else any_email email us))"

definition base_url :: string where
  "base_url = ''https://api.zoom.us/v2''"

definition user_list_url :: ftext where
  "user_list_url = [Txt base_url, Txt ''/users'']"

definition user_list_params :: pyval where
  "user_list_params = PDict [(''status'', PStr ''active''), (''page_size'', PInt 100)]"

definition zoom_group_url :: "pyval \<Rightarrow> ftext" where
  "zoom_group_url group_id = [Txt base_url, Txt ''/groups/'', Fmt group_id, Txt ''/members'']"

definition zoom_add_payload :: "string \<Rightarrow> pyval" where
  "zoom_add_payload email = PDict [(''members'', PList [PDict [(''email'', PStr email)]])]"

definition zoom_not_found :: "string \<Rightarrow> event" where
  "zoom_not_found email =
     Logged WARNING [Txt ''Zoom user '', Txt email,
                     Txt '' not found. Account creation might be manual or via SSO.'']"

text \<open>Lines 105 to 110: the optional group membership of an account that exists.\<close>

definition zoom_add_to_group ::
  "world \<Rightarrow> string \<Rightarrow> config \<Rightarrow> (string \<times> ftext) list \<Rightarrow> unit comp" where
  "zoom_add_to_group w email cfg headers =
     (if truthy (dict_get cfg ''default_group_id'' PNone) then
        andthen (lift (subscript cfg ''default_group_id'')) (\<lambda>group_id.
        andthen (call (HttpPost (zoom_group_url group_id) headers (zoom_add_payload email))
                   (http_post w (zoom_group_url group_id) headers (zoom_add_payload email)))
          (\<lambda>add_response.
        andthen (lift (raise_for_status add_response)) (\<lambda>u1.
        emit (Logged INFO [Txt ''User '', Txt email, Txt '' added to Zoom group '',
                           Fmt group_id]))))
      else ret ())"

text \<open>The body of the \<^verbatim>\<open>try\<close> statement of \<^verbatim>\<open>onboard_zoom\<close> (lines 98 to 114).\<close>

definition zoom_try ::
  "world \<Rightarrow> string \<Rightarrow> config \<Rightarrow> (string \<times> ftext) list \<Rightarrow> bool comp" where
  "zoom_try w email cfg headers =
     andthen (call (HttpGet user_list_url headers user_list_params)
                (http_get w user_list_url headers user_list_params)) (\<lambda>response.
     andthen (lift (raise_for_status response)) (\<lambda>u1.
     andthen (lift (json_result response)) (\<lambda>zoom_users_data.
     andthen (lift (py_get zoom_users_data ''users'' (PList []))) (\<lambda>users.
     andthen (lift (py_iter users)) (\<lambda>items.
     andthen (lift (any_email email items)) (\<lambda>user_exists.
       if user_exists then
         andthen (emit (Logged INFO [Txt ''Zoom user '', Txt email,
                                     Txt '' already exists.''])) (\<lambda>u2.
         andthen (zoom_add_to_group w email cfg headers) (\<lambda>u3.
         ret True))
       else
         andthen (emit (zoom_not_found email)) (\<lambda>u2.
         ret True)))))))"

text \<open>
  \<^verbatim>\<open>onboard_zoom\<close> (lines 70 to 117). Everything up to and including the call of
  \<^verbatim>\<open>generate_jwt\<close> is outside the \<^verbatim>\<open>try\<close> statement, so an exception there leaves
  the function; one inside is logged and turned into \<open>False\<close>.
\<close>

definition zoom_handler :: "string \<Rightarrow> exn \<Rightarrow> bool comp" where
  "zoom_handler email e =
     andthen (emit (Logged ERROR [Txt ''Error interacting with Zoom API for '', Txt email,
                                  Txt '': '', FmtExn e])) (\<lambda>u.
     ret False)"

definition onboard_zoom :: "world \<Rightarrow> user_data \<Rightarrow> config \<Rightarrow> bool comp" where
  "onboard_zoom w ud cfg =
     andthen (lift (import_module w ''requests'')) (\<lambda>u1.
     andthen (lift (subscript cfg ''api_key'')) (\<lambda>api_key.
     andthen (lift (subscript cfg ''api_secret'')) (\<lambda>api_secret.
     andthen (lift (subscript ud ''email'')) (\<lambda>email.
     andthen (generate_jwt w api_key api_secret) (\<lambda>jwt_token.
     try_except (zoom_try w email cfg (bearer_headers (Txt jwt_token)))
       (zoom_handler email))))))"


section \<open>The directory provider\<close>

definition user_body :: "string \<Rightarrow> string \<Rightarrow> string \<Rightarrow> string \<Rightarrow> pyval \<Rightarrow> pyval" where
  "user_body email first_name last_name password org_unit =
     PDict [(''primaryEmail'', PStr email),
            (''name'', PDict [(''givenName'', PStr first_name),
                              (''familyName'', PStr last_name)]),
            (''password'', PStr password),
            (''orgUnitPath'', org_unit),
            (''changePasswordAtNextLogin'', PBool True)]"

definition group_member_body :: "string \<Rightarrow> pyval" where
  "group_member_body email = PDict [(''email'', PStr email), (''role'', PStr ''MEMBER'')]"

text \<open>The body of the \<^verbatim>\<open>try\<close> statement of \<^verbatim>\<open>onboard_google_workspace\<close> (lines 51 to 65).\<close>

definition google_try ::
  "world \<Rightarrow> config \<Rightarrow> string \<Rightarrow> pyval \<Rightarrow> bool comp" where
  "google_try w cfg email body =
     andthen (lift (subscript cfg ''domain'')) (\<lambda>domain.
     andthen (call (UsersInsert domain body) (users_insert w domain body)) (\<lambda>new_user.
     andthen (lift (py_subscript new_user ''primaryEmail'')) (\<lambda>primary.
     andthen (emit (Logged INFO [Txt ''Google Workspace user created: '', Fmt primary])) (\<lambda>u1.
     andthen (lift (subscript cfg ''onboarding_group_email'')) (\<lambda>group_key.
     andthen (call (GroupsInsert group_key (group_member_body email))
                (groups_insert w group_key (group_member_body email))) (\<lambda>added.
     andthen (emit (Logged INFO [Txt ''User '', Txt email, Txt '' added to group '',
                                 Fmt group_key])) (\<lambda>u2.
     ret True)))))))"

definition google_handler :: "string \<Rightarrow> exn \<Rightarrow> bool comp" where
  "google_handler email e =
     andthen (emit (Logged ERROR [Txt ''Error during Google Workspace onboarding for '',
                                  Txt email, Txt '': '', FmtExn e])) (\<lambda>u.
     ret False)"

text \<open>
  \<^verbatim>\<open>onboard_google_workspace\<close> (lines 35 to 68). The imports, the loading of the
  service credential, the building of the service and the reading of the record are
  before the \<^verbatim>\<open>try\<close> statement.
\<close>

definition onboard_google_workspace :: "world \<Rightarrow> user_data \<Rightarrow> config \<Rightarrow> bool comp" where
  "onboard_google_workspace w ud cfg =
     andthen (lift (import_module w ''google.oauth2'')) (\<lambda>u1.
     andthen (lift (import_module w ''googleapiclient.discovery'')) (\<lambda>u2.
     andthen (lift (subscript cfg ''service_account_file'')) (\<lambda>key_file.
     andthen (lift (subscript cfg ''admin_scopes'')) (\<lambda>scopes.
     andthen (lift (load_credentials w key_file scopes)) (\<lambda>creds.
     andthen (lift (build_service w)) (\<lambda>directory_service.
     andthen (lift (subscript ud ''email'')) (\<lambda>email.
     andthen (lift (subscript ud ''first_name'')) (\<lambda>first_name.
     andthen (lift (subscript ud ''last_name'')) (\<lambda>last_name.
     andthen (lift (subscript cfg ''default_org_unit'')) (\<lambda>default_org_unit.
     try_except
       (google_try w cfg email
          (user_body email first_name last_name
             (dict_get ud ''password'' ''DefaultWelcome1!'')
             (dict_get (as_pyvals ud) ''org_unit'' default_org_unit)))
       (google_handler email)))))))))))"


section \<open>The file-share provider\<close>

definition dropbox_url :: ftext where
  "dropbox_url = [Txt ''https://api.dropboxapi.com/2/sharing/add_folder_member'']"

definition dropbox_payload :: "pyval \<Rightarrow> string \<Rightarrow> pyval" where
  "dropbox_payload folder_path email =
     PDict [(''share_path'', folder_path),
            (''members'',
             PList [PDict [(''member'', PDict [(''.tag'', PStr ''email''),
                                               (''email'', PStr email)]),
                           (''access_level'', PStr ''viewer'')]])]"

text \<open>
  The body of the \<^verbatim>\<open>try\<close> statement of \<^verbatim>\<open>onboard_dropbox\<close> (lines 138 to 142). The
  response body is not read.
\<close>

definition dropbox_try ::
  "world \<Rightarrow> string \<Rightarrow> pyval \<Rightarrow> (string \<times> ftext) list \<Rightarrow> bool comp" where
  "dropbox_try w email folder_path headers =
     andthen (call (HttpPost dropbox_url headers (dropbox_payload folder_path email))
                (http_post w dropbox_url headers (dropbox_payload folder_path email)))
       (\<lambda>response.
     andthen (lift (raise_for_status response)) (\<lambda>u1.
     andthen (emit (Logged INFO [Txt ''Invited '', Txt email, Txt '' to Dropbox folder: '',
                                 Fmt folder_path])) (\<lambda>u2.
     ret True)))"

text \<open>
  The two \<^verbatim>\<open>except\<close> clauses (lines 143 to 148), tried in order. The first binds the
  exception to \<^verbatim>\<open>e\<close>; the second binds nothing and reads \<^verbatim>\<open>e\<close> to build its message.
  An exception that neither clause matches leaves the function.
\<close>

definition dropbox_handler :: "string \<Rightarrow> exn \<Rightarrow> bool comp" where
  "dropbox_handler email exc =
     (if is_RequestException exc then
        andthen (lift (read_local (Some exc) ''e'')) (\<lambda>e.
        andthen (emit (Logged ERROR [Txt ''Error inviting '', Txt email,
                                     Txt '' to Dropbox folder: '', FmtExn e])) (\<lambda>u.
        ret False))
      else if is_JSONDecodeError exc then
        andthen (lift (read_local None ''e'')) (\<lambda>e.
        andthen (emit (Logged ERROR [Txt ''Error decoding Dropbox response for '', Txt email,
                                     Txt '': '', FmtExn e])) (\<lambda>u.
        ret False))
      else lift (Inl exc))"

definition onboard_dropbox :: "world \<Rightarrow> user_data \<Rightarrow> config \<Rightarrow> bool comp" where
  "onboard_dropbox w ud cfg =
     andthen (lift (import_module w ''requests'')) (\<lambda>u1.
     andthen (lift (subscript cfg ''access_token'')) (\<lambda>access_token.
     andthen (lift (subscript ud ''email'')) (\<lambda>email.
     andthen (lift (subscript cfg ''onboarding_folder_path'')) (\<lambda>folder_path.
     try_except (dropbox_try w email folder_path (bearer_headers (Fmt access_token)))
       (dropbox_handler email)))))"


section \<open>The chat provider\<close>

definition slack_api_url :: ftext where
  "slack_api_url = [Txt ''https://slack.com/api/chat.postMessage'']"

definition welcome_message :: "string \<Rightarrow> string \<Rightarrow> string \<Rightarrow> string" where
  "welcome_message email first_name last_name =
     ''Welcome to the team, <mailto:'' @ email @ ''|'' @ first_name @ '' '' @ last_name @
     ''>! Please introduce yourself in this channel.''"

definition slack_payload :: "pyval \<Rightarrow> string \<Rightarrow> pyval" where
  "slack_payload channel_name message =
     PDict [(''channel'', channel_name), (''text'', PStr message)]"

text \<open>The body of the \<^verbatim>\<open>try\<close> statement of \<^verbatim>\<open>welcome_slack_user\<close> (lines 174 to 182).\<close>

definition slack_try ::
  "world \<Rightarrow> string \<Rightarrow> pyval \<Rightarrow> (string \<times> ftext) list \<Rightarrow> pyval \<Rightarrow> bool comp" where
  "slack_try w email channel_name headers payload =
     andthen (call (HttpPost slack_api_url headers payload)
                (http_post w slack_api_url headers payload)) (\<lambda>response.
     andthen (lift (raise_for_status response)) (\<lambda>u1.
     andthen (lift (json_result response)) (\<lambda>response_data.
     andthen (lift (py_get response_data ''ok'' PNone)) (\<lambda>ok.
       if truthy ok then
         andthen (emit (Logged INFO [Txt ''Welcome message sent to '', Fmt channel_name,
                                     Txt '' for '', Txt email])) (\<lambda>u2.
         ret True)
       else
         andthen (lift (py_get response_data ''error'' PNone)) (\<lambda>err.
         andthen (emit (Logged ERROR [Txt ''Failed to send welcome message to Slack for '',
                                      Txt email, Txt '': '', Fmt err])) (\<lambda>u2.
         ret False))))))"

definition slack_handler :: "string \<Rightarrow> exn \<Rightarrow> bool comp" where
  "slack_handler email exc =
     (if is_RequestException exc then
        andthen (lift (read_local (Some exc) ''e'')) (\<lambda>e.
        andthen (emit (Logged ERROR [Txt ''Error sending message to Slack for '', Txt email,
                                     Txt '': '', FmtExn e])) (\<lambda>u.
        ret False))
      else if is_JSONDecodeError exc then
        andthen (lift (read_local None ''e'')) (\<lambda>e.
        andthen (emit (Logged ERROR [Txt ''Error decoding Slack response for '', Txt email,
                                     Txt '': '', FmtExn e])) (\<lambda>u.
        ret False))
      else lift (Inl exc))"

definition welcome_slack_user :: "world \<Rightarrow> user_data \<Rightarrow> config \<Rightarrow> bool comp" where
  "welcome_slack_user w ud cfg =
     andthen (lift (import_module w ''requests'')) (\<lambda>u1.
     andthen (lift (subscript cfg ''bot_token'')) (\<lambda>bot_token.
     andthen (lift (subscript cfg ''welcome_channel'')) (\<lambda>channel_name.
     andthen (lift (subscript ud ''email'')) (\<lambda>email.
     andthen (lift (subscript ud ''first_name'')) (\<lambda>first_name.
     andthen (lift (subscript ud ''last_name'')) (\<lambda>last_name.
     try_except
       (slack_try w email channel_name (bearer_headers (Fmt bot_token))
          (slack_payload channel_name (welcome_message email first_name last_name)))
       (slack_handler email)))))))"


section \<open>Configuration and the orchestrator\<close>

text \<open>\<^verbatim>\<open>os.environ.get(name)\<close>: the variable's text, or \<^verbatim>\<open>None\<close>.\<close>

definition environ_get :: "world \<Rightarrow> string \<Rightarrow> pyval" where
  "environ_get w n = dict_get (as_pyvals (environ w)) n PNone"

definition GOOGLE_WORKSPACE_CONFIG :: config where
  "GOOGLE_WORKSPACE_CONFIG = map_of
     [(''domain'', PStr ''yourcorpdomain.com''),
      (''admin_scopes'',
       PList [PStr ''https://www.googleapis.com/auth/admin.directory.user'',
              PStr ''https://www.googleapis.com/auth/admin.directory.group'']),
      (''service_account_file'', PStr ''/path/to/your/gworkspace_service_account_key.json''),
      (''default_org_unit'', PStr ''/Users''),
      (''onboarding_group_email'', PStr ''all-employees@yourcorpdomain.com'')]"

definition ZOOM_CONFIG :: "world \<Rightarrow> config" where
  "ZOOM_CONFIG w = map_of
     [(''api_key'', environ_get w ''ZOOM_CORP_API_KEY''),
      (''api_secret'', environ_get w ''ZOOM_CORP_API_SECRET''),
      (''default_group_id'', PStr ''YOUR_CORP_ZOOM_GROUP_ID'')]"

definition DROPBOX_CONFIG :: "world \<Rightarrow> config" where
  "DROPBOX_CONFIG w = map_of
     [(''access_token'', environ_get w ''DROPBOX_CORP_ACCESS_TOKEN''),
      (''onboarding_folder_path'', PStr ''/Company Shared/New Starters'')]"

definition SLACK_CONFIG :: "world \<Rightarrow> config" where
  "SLACK_CONFIG w = map_of
     [(''bot_token'', environ_get w ''SLACK_CORP_BOT_TOKEN''),
      (''welcome_channel'', PStr ''#general-announcements'')]"

definition new_employee_data :: user_data where
  "new_employee_data = map_of
     [(''email'', ''newhire123@yourcorpdomain.com''),
      (''first_name'', ''John''),
      (''last_name'', ''Doe''),
      (''org_unit'', ''/Users/New Employees'')]"

text \<open>Python's \<^verbatim>\<open>all\<close> on a list of booleans.\<close>

fun all_py :: "bool list \<Rightarrow> bool" where
  "all_py [] = True"
| "all_py (b # bs) = (if b then all_py bs else False)"

definition success_line :: "string \<Rightarrow> event" where
  "success_line email =
     Logged INFO [Txt ''Onboarding process completed successfully for '', Txt email]"

definition warning_line :: "string \<Rightarrow> event" where
  "warning_line email =
     Logged WARNING [Txt ''Onboarding process completed for '', Txt email,
                     Txt '' with some potential failures. Check logs for details.'']"

text \<open>Lines 205 to 208; the value returned is the value of the \<^verbatim>\<open>all\<close> test.\<close>

definition report :: "user_data \<Rightarrow> bool list \<Rightarrow> bool comp" where
  "report ud outcomes =
     (if all_py outcomes then
        andthen (lift (subscript ud ''email'')) (\<lambda>email.
        andthen (emit (success_line email)) (\<lambda>u.
        ret True))
      else
        andthen (lift (subscript ud ''email'')) (\<lambda>email.
        andthen (emit (warning_line email)) (\<lambda>u.
        ret False)))"

definition start_line :: "string \<Rightarrow> event" where
  "start_line email = Logged INFO [Txt ''Starting onboarding process for '', Txt email]"

text \<open>
  The main block (lines 198 to 208), stated over the four functions it calls, each
  already given its configuration, so that its control flow can be examined with any
  four callees; \<open>main\<close> is the block with the four provider functions of the module
  and the employee record written in it.
\<close>

definition orchestrate ::
  "(user_data \<Rightarrow> bool comp) \<Rightarrow> (user_data \<Rightarrow> bool comp) \<Rightarrow> (user_data \<Rightarrow> bool comp) \<Rightarrow>
   (user_data \<Rightarrow> bool comp) \<Rightarrow> user_data \<Rightarrow> bool comp" where
  "orchestrate directory conferencing file_share chat ud =
     andthen (lift (subscript ud ''email'')) (\<lambda>email.
     andthen (emit (start_line email)) (\<lambda>u.
     andthen (directory ud) (\<lambda>gworkspace_success.
     andthen (conferencing ud) (\<lambda>zoom_success.
     andthen (file_share ud) (\<lambda>dropbox_success.
     andthen (chat ud) (\<lambda>slack_success.
     report ud [gworkspace_success, zoom_success, dropbox_success, slack_success]))))))"

definition main :: "world \<Rightarrow> bool comp" where
  "main w =
     orchestrate
       (\<lambda>ud. onboard_google_workspace w ud GOOGLE_WORKSPACE_CONFIG)
       (\<lambda>ud. onboard_zoom w ud (ZOOM_CONFIG w))
       (\<lambda>ud. onboard_dropbox w ud (DROPBOX_CONFIG w))
       (\<lambda>ud. welcome_slack_user w ud (SLACK_CONFIG w))
       new_employee_data"


section \<open>Observations and example environments\<close>

text \<open>The requests among the events of a run, in order.\<close>

fun is_request :: "event \<Rightarrow> bool" where
  "is_request (Logged l m) = False"
| "is_request ev = True"

definition requests_of :: "event list \<Rightarrow> event list" where
  "requests_of evs = filter is_request evs"

text \<open>The log records among the events of a run, in order.\<close>

definition logs_of :: "event list \<Rightarrow> event list" where
  "logs_of evs = filter (\<lambda>ev. \<not> is_request ev) evs"

fun is_listing :: "event \<Rightarrow> bool" where
  "is_listing (HttpGet url headers params) = True"
| "is_listing ev = False"

text \<open>
  Two readings of a response in the words of the specification: its status is in the
  2xx class; its body is a JSON object whose \<^verbatim>\<open>ok\<close> member is the boolean true.
\<close>

definition is_2xx :: "response \<Rightarrow> bool" where
  "is_2xx r = (200 \<le> status_code r \<and> status_code r < 300)"

definition ok_is_true :: "response \<Rightarrow> bool" where
  "ok_is_true r =
     (case json_result r of
        Inr (PDict kvs) \<Rightarrow> dict_get (map_of kvs) ''ok'' PNone = PBool True
      | _ \<Rightarrow> False)"

text \<open>
  The directory provider gets as far as its \<^verbatim>\<open>try\<close> statement when both client
  libraries are installed, the configuration names the key file and the scopes, the
  credential loads and the service is built.
\<close>

definition google_ready :: "world \<Rightarrow> config \<Rightarrow> bool" where
  "google_ready w cfg =
     (installed w ''google.oauth2'' \<and> installed w ''googleapiclient.discovery'' \<and>
      (case cfg ''service_account_file'' of
         None \<Rightarrow> False
       | Some key_file \<Rightarrow>
           (case cfg ''admin_scopes'' of
              None \<Rightarrow> False
            | Some scopes \<Rightarrow> load_credentials w key_file scopes = Inr ())) \<and>
      build_service w = Inr ())"

text \<open>
  An environment in which every module is installed and every service accepts every
  request: the directory answers with the resource it was sent, the conferencing
  service lists no user, and every \<^verbatim>\<open>POST\<close> is answered with status 200 and an
  acknowledging body.
\<close>

definition ok_response :: "pyval \<Rightarrow> response" where
  "ok_response body = \<lparr>status_code = 200, json_result = Inr body\<rparr>"

definition friendly_world :: world where
  "friendly_world =
     \<lparr>environ = map_of [(''ZOOM_CORP_API_KEY'', ''key''), (''ZOOM_CORP_API_SECRET'', ''secret''),
                         (''DROPBOX_CORP_ACCESS_TOKEN'', ''dbx''),
                         (''SLACK_CORP_BOT_TOKEN'', ''xoxb'')],
      installed = (\<lambda>m. True),
      load_credentials = (\<lambda>key_file scopes. Inr ()),
      build_service = Inr (),
      users_insert = (\<lambda>domain body. Inr body),
      groups_insert = (\<lambda>group_key body. Inr body),
      jwt_encode = (\<lambda>api_key api_secret. Inr ''signed''),
      http_get = (\<lambda>url headers params. Inr (ok_response (PDict [(''users'', PList [])]))),
      http_post = (\<lambda>url headers body. Inr (ok_response (PDict [(''ok'', PBool True)])))\<rparr>"

text \<open>The same environment with every \<^verbatim>\<open>POST\<close> given one fixed outcome.\<close>

definition post_gives :: "exn + response \<Rightarrow> world" where
  "post_gives outcome = friendly_world\<lparr>http_post := (\<lambda>url headers body. outcome)\<rparr>"

text \<open>The same environment with the user list answered by one fixed body.\<close>

definition listing :: "pyval \<Rightarrow> world" where
  "listing body = friendly_world\<lparr>http_get := (\<lambda>url headers params. Inr (ok_response body))\<rparr>"

text \<open>The same environment with the creation of a user answered by one fixed resource.\<close>

definition creation_answers :: "pyval \<Rightarrow> world" where
  "creation_answers resource = friendly_world\<lparr>users_insert := (\<lambda>domain body. Inr resource)\<rparr>"

text \<open>
  The events the directory provider can leave: its two requests, its two information
  lines and its error line.
\<close>

fun directory_event :: "event \<Rightarrow> bool" where
  "directory_event (UsersInsert domain body) = True"
| "directory_event (GroupsInsert group_key body) = True"
| "directory_event (Logged INFO (Txt t # rest)) =
     (t = ''Google Workspace user created: '' \<or> t = ''User '')"
| "directory_event (Logged ERROR (Txt t # rest)) =
     (t = ''Error during Google Workspace onboarding for '')"
| "directory_event ev = False"

fun is_post :: "event \<Rightarrow> bool" where
  "is_post (HttpPost url headers body) = True"
| "is_post ev = False"


section \<open>Sequencing rules\<close>

lemma andthen_lift_Inl [simp]: "andthen (lift (Inl e)) f = (Inl e, [])"
  by (simp add: andthen_def lift_def)

lemma andthen_lift_Inr [simp]: "andthen (lift (Inr x)) f = f x"
  by (simp add: andthen_def lift_def)

lemma andthen_ret [simp]: "andthen (ret x) f = f x"
  by (simp add: andthen_def ret_def)

lemma andthen_emit [simp]: "andthen (emit ev) f = (fst (f ()), ev # snd (f ()))"
  by (simp add: andthen_def emit_def)

lemma andthen_call_Inl [simp]: "andthen (call ev (Inl e)) f = (Inl e, [ev])"
  by (simp add: andthen_def call_def)

lemma andthen_call_Inr [simp]: "andthen (call ev (Inr x)) f = (fst (f x), ev # snd (f x))"
  by (simp add: andthen_def call_def)

lemma andthen_raised [simp]: "andthen (Inl e, evs) f = (Inl e, evs)"
  by (simp add: andthen_def)

lemma andthen_returned [simp]: "andthen (Inr x, evs) f = (fst (f x), evs @ snd (f x))"
  by (simp add: andthen_def)

lemma try_except_raised [simp]: "try_except (Inl e, evs) h = (fst (h e), evs @ snd (h e))"
  by (simp add: try_except_def)

lemma try_except_returned [simp]: "try_except (Inr x, evs) h = (Inr x, evs)"
  by (simp add: try_except_def)

lemma ret_pair [simp]: "fst (ret x) = Inr x" "snd (ret x) = []"
  by (simp_all add: ret_def)

lemma lift_pair [simp]: "fst (lift r) = r" "snd (lift r) = []"
  by (simp_all add: lift_def)

lemma subscript_Some [simp]: "d k = Some v \<Longrightarrow> subscript d k = Inr v"
  by (simp add: subscript_def)

lemma subscript_None [simp]: "d k = None \<Longrightarrow> subscript d k = Inl (KeyError k)"
  by (simp add: subscript_def)


text \<open>The definitions that a run in an example environment unfolds.\<close>

lemmas example_defs =
  friendly_world_def post_gives_def listing_def ok_response_def new_employee_data_def
  ZOOM_CONFIG_def DROPBOX_CONFIG_def SLACK_CONFIG_def GOOGLE_WORKSPACE_CONFIG_def
  environ_get_def dict_get_def as_pyvals_def import_module_def raise_for_status_def
  read_local_def bearer_headers_def


section \<open>The conferencing provider never gets past its token\<close>

lemma generate_jwt_raises:
  "generate_jwt w k s =
     (Inl (if installed w ''jwt'' then NameError ''timedelta'' else ModuleNotFoundError ''jwt''),
      [])"
  by (simp add: generate_jwt_def import_module_def load_global_def module_globals_def)

lemma onboard_zoom_raises: "\<exists>e. onboard_zoom w ud cfg = (Inl e, [])"
  by (cases "cfg ''api_key''"; cases "cfg ''api_secret''"; cases "ud ''email''")
     (simp_all add: onboard_zoom_def import_module_def generate_jwt_raises)

text \<open>
  C4. Every call of \<^verbatim>\<open>onboard_zoom\<close> raises instead of returning. When the HTTP and token
  libraries are installed, the configuration has its key and secret and the record has
  an email, the exception is the \<^verbatim>\<open>NameError\<close> of the name \<^verbatim>\<open>timedelta\<close>, which the
  module never binds.
\<close>

theorem onboard_zoom_never_completes:
  "(\<exists>e. fst (onboard_zoom w ud cfg) = Inl e) \<and>
   (installed w ''requests'' \<and> installed w ''jwt'' \<and> cfg ''api_key'' \<noteq> None \<and>
    cfg ''api_secret'' \<noteq> None \<and> ud ''email'' \<noteq> None \<longrightarrow>
      fst (onboard_zoom w ud cfg) = Inl (NameError ''timedelta''))"
proof
  from onboard_zoom_raises [of w ud cfg] show "\<exists>e. fst (onboard_zoom w ud cfg) = Inl e"
    by auto
next
  show "installed w ''requests'' \<and> installed w ''jwt'' \<and> cfg ''api_key'' \<noteq> None \<and>
    cfg ''api_secret'' \<noteq> None \<and> ud ''email'' \<noteq> None \<longrightarrow>
      fst (onboard_zoom w ud cfg) = Inl (NameError ''timedelta'')"
    by (auto simp add: onboard_zoom_def import_module_def generate_jwt_raises)
qed

theorem onboard_zoom_never_completes_witness:
  "installed friendly_world ''requests'' \<and> installed friendly_world ''jwt'' \<and>
   ZOOM_CONFIG friendly_world ''api_key'' \<noteq> None \<and>
   ZOOM_CONFIG friendly_world ''api_secret'' \<noteq> None \<and>
   new_employee_data ''email'' \<noteq> None \<and>
   fst (onboard_zoom friendly_world new_employee_data (ZOOM_CONFIG friendly_world)) =
     Inl (NameError ''timedelta'')"
  using onboard_zoom_never_completes
          [of friendly_world new_employee_data "ZOOM_CONFIG friendly_world"]
  by (simp add: friendly_world_def new_employee_data_def ZOOM_CONFIG_def)


text \<open>
  What the \<^verbatim>\<open>try\<close> statement of the conferencing provider does when it is entered: it
  asks once for the user list, a single page of at most 100 active users, and decides
  from that answer alone; an email that is not in it gets the warning, no further
  request, and the outcome true.
\<close>

lemma zoom_try_not_found:
  assumes "http_get w user_list_url headers user_list_params = Inr r"
      and "\<not> (400 \<le> status_code r \<and> status_code r < 600)"
      and "json_result r = Inr (PDict kvs)"
      and "py_iter (dict_get (map_of kvs) ''users'' (PList [])) = Inr items"
      and "any_email email items = Inr False"
  shows "zoom_try w email cfg headers =
           (Inr True, [HttpGet user_list_url headers user_list_params, zoom_not_found email])"
  using assms by (simp add: zoom_try_def raise_for_status_def)

lemma zoom_add_to_group_no_listing:
  "filter is_listing (snd (zoom_add_to_group w email cfg headers)) = []"
  by (simp add: zoom_add_to_group_def andthen_def lift_def call_def emit_def ret_def
      split: sum.splits)

lemma zoom_try_single_listing:
  "filter is_listing (snd (zoom_try w email cfg headers)) =
     [HttpGet user_list_url headers user_list_params]"
  by (simp add: zoom_try_def andthen_def lift_def call_def emit_def ret_def
      zoom_add_to_group_no_listing zoom_not_found_def split: sum.splits)

lemma zoom_try_absent_email_example:
  "zoom_try
     (listing (PDict [(''users'', PList [PDict [(''email'', PStr ''other@yourcorpdomain.com'')]])]))
     ''newhire123@yourcorpdomain.com'' cfg headers =
   (Inr True,
    [HttpGet user_list_url headers user_list_params,
     zoom_not_found ''newhire123@yourcorpdomain.com''])"
  by (simp add: zoom_try_def example_defs)

text \<open>
  C7. The claim describes the \<^verbatim>\<open>try\<close> statement (see \<open>zoom_try_not_found\<close>), but the
  function does not get there. With a user list that does not hold the employee's
  email, \<^verbatim>\<open>onboard_zoom\<close> raises the \<^verbatim>\<open>NameError\<close> of \<^verbatim>\<open>timedelta\<close>: it logs no warning
  and does not return true.
\<close>

theorem zoom_absent_email_run:
  "onboard_zoom
     (listing (PDict [(''users'', PList [PDict [(''email'', PStr ''other@yourcorpdomain.com'')]])]))
     new_employee_data
     (ZOOM_CONFIG
        (listing (PDict [(''users'',
                          PList [PDict [(''email'', PStr ''other@yourcorpdomain.com'')]])]))) =
   (Inl (NameError ''timedelta''), [])"
  by (simp add: onboard_zoom_def generate_jwt_raises example_defs)

text \<open>
  C10. The single-page existence check is what the \<^verbatim>\<open>try\<close> statement would do (see
  \<open>zoom_try_single_listing\<close>), but \<^verbatim>\<open>onboard_zoom\<close> never sends it: no call of the
  function leaves any event, neither a request nor a log record.
\<close>

theorem onboard_zoom_sends_nothing: "snd (onboard_zoom w ud cfg) = []"
  using onboard_zoom_raises [of w ud cfg] by auto


section \<open>The orchestrator\<close>

text \<open>
  What the main block does with four callees that return: it runs all four, in order,
  on the same record, whatever each returns, and ends with one line, the success line
  when all four outcomes are true and the warning line otherwise.
\<close>

lemma orchestrate_returns:
  assumes "ud ''email'' = Some email"
      and "directory ud = (Inr g, e1)" and "conferencing ud = (Inr z, e2)"
      and "file_share ud = (Inr d, e3)" and "chat ud = (Inr s, e4)"
  shows "orchestrate directory conferencing file_share chat ud =
           (Inr (g \<and> z \<and> d \<and> s),
            Logged INFO [Txt ''Starting onboarding process for '', Txt email] #
            e1 @ e2 @ e3 @ e4 @
              [if g \<and> z \<and> d \<and> s
               then Logged INFO [Txt ''Onboarding process completed successfully for '',
                                 Txt email]
               else Logged WARNING [Txt ''Onboarding process completed for '', Txt email,
                      Txt '' with some potential failures. Check logs for details.'']])"
  using assms
  by (simp add: orchestrate_def report_def start_line_def success_line_def warning_line_def)

text \<open>The events of a sequence come from its parts.\<close>

lemma andthen_events:
  "ev \<in> set (snd (andthen m f)) \<Longrightarrow> ev \<in> set (snd m) \<or> (\<exists>x. ev \<in> set (snd (f x)))"
  by (auto simp add: andthen_def split: sum.splits)

lemma try_except_events:
  "ev \<in> set (snd (try_except m h)) \<Longrightarrow> ev \<in> set (snd m) \<or> (\<exists>e. ev \<in> set (snd (h e)))"
  by (auto simp add: try_except_def split: sum.splits)

lemma google_try_events:
  "ev \<in> set (snd (google_try w cfg email body)) \<Longrightarrow> directory_event ev"
  unfolding google_try_def
  by (auto dest!: andthen_events simp add: call_def emit_def ret_def)

lemma google_handler_events:
  "ev \<in> set (snd (google_handler email e)) \<Longrightarrow> directory_event ev"
  by (simp add: google_handler_def)

lemma onboard_google_workspace_events:
  "ev \<in> set (snd (onboard_google_workspace w ud cfg)) \<Longrightarrow> directory_event ev"
  unfolding onboard_google_workspace_def
  by (auto dest!: andthen_events try_except_events
        dest: google_try_events google_handler_events)

lemma main_stops_in_zoom:
  "\<exists>e. main w =
     (Inl e,
      Logged INFO [Txt ''Starting onboarding process for '',
                   Txt ''newhire123@yourcorpdomain.com''] #
      snd (onboard_google_workspace w new_employee_data GOOGLE_WORKSPACE_CONFIG))"
proof -
  obtain e where z: "onboard_zoom w new_employee_data (ZOOM_CONFIG w) = (Inl e, [])"
    using onboard_zoom_raises by blast
  have em: "new_employee_data ''email'' = Some ''newhire123@yourcorpdomain.com''"
    by (simp add: new_employee_data_def)
  show ?thesis
  proof (cases "onboard_google_workspace w new_employee_data GOOGLE_WORKSPACE_CONFIG")
    case (Pair r evs)
    then show ?thesis
      by (cases r) (simp_all add: main_def orchestrate_def em z start_line_def)
  qed
qed

text \<open>
  C1. With the module's own providers the run never exits normally: whatever the
  environment, \<open>main\<close> ends in an exception. When the directory provider returns, the
  conferencing provider is called and raises outside its \<^verbatim>\<open>try\<close> statement, so the
  file-share and chat providers are not called.
\<close>

theorem main_never_completes: "\<exists>e. fst (main w) = Inl e"
proof -
  obtain e where z: "onboard_zoom w new_employee_data (ZOOM_CONFIG w) = (Inl e, [])"
    using onboard_zoom_raises by blast
  have em: "new_employee_data ''email'' = Some ''newhire123@yourcorpdomain.com''"
    by (simp add: new_employee_data_def)
  show ?thesis
  proof (cases "onboard_google_workspace w new_employee_data GOOGLE_WORKSPACE_CONFIG")
    case (Pair r evs)
    then show ?thesis
      by (cases r) (simp_all add: main_def orchestrate_def em z)
  qed
qed

text \<open>
  C2. The program never gets to its aggregate: in no environment does a run log a
  warning line of any kind, nor the success line. The four outcomes are never all
  true, since the conferencing provider never returns, yet the warning line that the
  claim asks for is not logged.
\<close>

theorem main_logs_no_final_line:
  "(\<forall>text. Logged WARNING text \<notin> set (snd (main w))) \<and>
   Logged INFO [Txt ''Onboarding process completed successfully for '',
                Txt ''newhire123@yourcorpdomain.com''] \<notin> set (snd (main w))"
proof -
  obtain e where m: "main w =
     (Inl e,
      Logged INFO [Txt ''Starting onboarding process for '',
                   Txt ''newhire123@yourcorpdomain.com''] #
      snd (onboard_google_workspace w new_employee_data GOOGLE_WORKSPACE_CONFIG))"
    using main_stops_in_zoom by blast
  show ?thesis
    unfolding m using onboard_google_workspace_events [of _ w new_employee_data GOOGLE_WORKSPACE_CONFIG]
    by fastforce
qed

text \<open>
  C3. The program never calls the file-share and chat providers: every run ends in
  an exception after the start line and the events of the directory provider, and
  sends no \<^verbatim>\<open>POST\<close> request at all.
\<close>

theorem main_stops_before_file_share_and_chat:
  "(\<exists>e. main w =
     (Inl e,
      Logged INFO [Txt ''Starting onboarding process for '',
                   Txt ''newhire123@yourcorpdomain.com''] #
      snd (onboard_google_workspace w new_employee_data GOOGLE_WORKSPACE_CONFIG))) \<and>
   filter is_post (snd (main w)) = []"
proof -
  obtain e where m: "main w =
     (Inl e,
      Logged INFO [Txt ''Starting onboarding process for '',
                   Txt ''newhire123@yourcorpdomain.com''] #
      snd (onboard_google_workspace w new_employee_data GOOGLE_WORKSPACE_CONFIG))"
    using main_stops_in_zoom by blast
  have "\<not> is_post ev"
    if "ev \<in> set (snd (onboard_google_workspace w new_employee_data GOOGLE_WORKSPACE_CONFIG))"
    for ev
    using onboard_google_workspace_events [OF that] by (cases ev) simp_all
  then have "filter is_post
      (snd (onboard_google_workspace w new_employee_data GOOGLE_WORKSPACE_CONFIG)) = []"
    by (simp add: filter_empty_conv)
  with m show ?thesis by simp
qed

text \<open>The run of the program in the example environment, event by event.\<close>

lemma main_friendly_run:
  "main friendly_world =
     (Inl (NameError ''timedelta''),
      [start_line ''newhire123@yourcorpdomain.com'',
       UsersInsert (PStr ''yourcorpdomain.com'')
         (user_body ''newhire123@yourcorpdomain.com'' ''John'' ''Doe'' ''DefaultWelcome1!''
            (PStr ''/Users/New Employees'')),
       Logged INFO [Txt ''Google Workspace user created: '',
                    Fmt (PStr ''newhire123@yourcorpdomain.com'')],
       GroupsInsert (PStr ''all-employees@yourcorpdomain.com'')
         (group_member_body ''newhire123@yourcorpdomain.com''),
       Logged INFO [Txt ''User '', Txt ''newhire123@yourcorpdomain.com'',
                    Txt '' added to group '', Fmt (PStr ''all-employees@yourcorpdomain.com'')]])"
  by (simp add: main_def orchestrate_def onboard_google_workspace_def google_try_def
      onboard_zoom_def generate_jwt_raises user_body_def example_defs)


section \<open>The directory provider, once its requests are reached\<close>

lemma google_reaches_try:
  assumes "google_ready w cfg"
      and "ud ''email'' = Some email" and "ud ''first_name'' = Some first_name"
      and "ud ''last_name'' = Some last_name" and "cfg ''default_org_unit'' = Some default_ou"
  shows "onboard_google_workspace w ud cfg =
           try_except
             (google_try w cfg email
                (user_body email first_name last_name
                   (dict_get ud ''password'' ''DefaultWelcome1!'')
                   (dict_get (as_pyvals ud) ''org_unit'' default_ou)))
             (google_handler email)"
  using assms
  by (auto simp add: google_ready_def onboard_google_workspace_def import_module_def
      split: option.splits)

lemma google_try_cases:
  assumes "cfg ''domain'' = Some domain" and "cfg ''onboarding_group_email'' = Some group_key"
  shows "google_try w cfg email body =
           (case users_insert w domain body of
              Inl e \<Rightarrow> (Inl e, [UsersInsert domain body])
            | Inr new_user \<Rightarrow>
                (case py_subscript new_user ''primaryEmail'' of
                   Inl e \<Rightarrow> (Inl e, [UsersInsert domain body])
                 | Inr primary \<Rightarrow>
                     (case groups_insert w group_key (group_member_body email) of
                        Inl e \<Rightarrow>
                          (Inl e,
                           [UsersInsert domain body,
                            Logged INFO [Txt ''Google Workspace user created: '', Fmt primary],
                            GroupsInsert group_key (group_member_body email)])
                      | Inr added \<Rightarrow>
                          (Inr True,
                           [UsersInsert domain body,
                            Logged INFO [Txt ''Google Workspace user created: '', Fmt primary],
                            GroupsInsert group_key (group_member_body email),
                            Logged INFO [Txt ''User '', Txt email, Txt '' added to group '',
                                         Fmt group_key]]))))"
  using assms by (simp add: google_try_def split: sum.splits)

lemma google_handler_False:
  "google_handler email e =
     (Inr False, [Logged ERROR [Txt ''Error during Google Workspace onboarding for '',
                                Txt email, Txt '': '', FmtExn e]])"
  by (simp add: google_handler_def)

lemma snd_try_except:
  "snd (try_except m h) = snd m @ (case fst m of Inl e \<Rightarrow> snd (h e) | Inr x \<Rightarrow> [])"
  by (simp add: try_except_def split: sum.splits)

lemma google_try_first_request:
  assumes "cfg ''domain'' = Some domain"
  shows "\<exists>rest. snd (google_try w cfg email body) = UsersInsert domain body # rest"
  using assms by (cases "users_insert w domain body") (simp_all add: google_try_def)

text \<open>The two defaults of lines 47 and 48, spelled out.\<close>

lemma password_or_placeholder:
  "dict_get ud ''password'' ''DefaultWelcome1!'' =
     (case ud ''password'' of None \<Rightarrow> ''DefaultWelcome1!'' | Some p \<Rightarrow> p)"
  by (simp add: dict_get_def)

lemma org_unit_or_default:
  "dict_get (as_pyvals ud) ''org_unit'' default_ou =
     (case ud ''org_unit'' of None \<Rightarrow> default_ou | Some u \<Rightarrow> PStr u)"
  by (simp add: dict_get_def as_pyvals_def split: option.splits)

lemma has_primary_email:
  "(\<exists>primary. py_subscript v ''primaryEmail'' = Inr primary) \<longleftrightarrow>
   (\<exists>kvs primary. v = PDict kvs \<and> map_of kvs ''primaryEmail'' = Some primary)"
  by (cases v) (auto simp add: subscript_def split: option.splits)

text \<open>
  C8, as amended. When the provider gets as far as its requests, the first request is
  the creation of the user, carrying the record's email, given and family name,
  password and org unit and the flag \<^verbatim>\<open>changePasswordAtNextLogin\<close> set. The only other
  request it can send is the insertion of that email, with the role of member, under
  the configured group; it sends it exactly when the creation was answered, without
  error, by a resource that has a \<^verbatim>\<open>primaryEmail\<close>. It returns true exactly when both
  requests were sent and both completed without error, and false otherwise.
\<close>

theorem directory_create_then_add_member:
  assumes "google_ready w cfg"
      and "ud ''email'' = Some email" and "ud ''first_name'' = Some first_name"
      and "ud ''last_name'' = Some last_name" and "cfg ''default_org_unit'' = Some default_ou"
      and "cfg ''domain'' = Some domain" and "cfg ''onboarding_group_email'' = Some group_key"
      and "body =
             PDict [(''primaryEmail'', PStr email),
                    (''name'', PDict [(''givenName'', PStr first_name),
                                      (''familyName'', PStr last_name)]),
                    (''password'',
                     PStr (case ud ''password'' of None \<Rightarrow> ''DefaultWelcome1!'' | Some p \<Rightarrow> p)),
                    (''orgUnitPath'',
                     (case ud ''org_unit'' of None \<Rightarrow> default_ou | Some u \<Rightarrow> PStr u)),
                    (''changePasswordAtNextLogin'', PBool True)]"
      and "create = UsersInsert domain body"
      and "add = GroupsInsert group_key (PDict [(''email'', PStr email), (''role'', PStr ''MEMBER'')])"
      and "run = onboard_google_workspace w ud cfg"
  shows "(requests_of (snd run) = [create] \<or> requests_of (snd run) = [create, add]) \<and>
         (requests_of (snd run) = [create, add] \<longleftrightarrow>
            (\<exists>kvs primary. users_insert w domain body = Inr (PDict kvs) \<and>
                map_of kvs ''primaryEmail'' = Some primary)) \<and>
         (fst run = Inr True \<or> fst run = Inr False) \<and>
         (fst run = Inr True \<longleftrightarrow>
            requests_of (snd run) = [create, add] \<and>
            (\<exists>new_user. users_insert w domain body = Inr new_user) \<and>
            (\<exists>added. groups_insert w group_key
                (PDict [(''email'', PStr email), (''role'', PStr ''MEMBER'')]) = Inr added))"
proof -
  have b: "body = user_body email first_name last_name
                    (dict_get ud ''password'' ''DefaultWelcome1!'')
                    (dict_get (as_pyvals ud) ''org_unit'' default_ou)"
    using assms(8) by (simp add: user_body_def password_or_placeholder org_unit_or_default)
  have run: "run = try_except (google_try w cfg email body) (google_handler email)"
    using assms(1-5,11) b google_reaches_try [of w cfg ud email first_name last_name default_ou]
    by simp
  have sub: "(\<exists>kvs primary. v = PDict kvs \<and> map_of kvs ''primaryEmail'' = Some primary) \<longleftrightarrow>
             (\<exists>primary. py_subscript v ''primaryEmail'' = Inr primary)" for v
    using has_primary_email [of v] by simp
  have ans: "(\<exists>kvs primary. users_insert w domain body = Inr (PDict kvs) \<and>
                map_of kvs ''primaryEmail'' = Some primary) \<longleftrightarrow>
             (\<exists>new_user primary. users_insert w domain body = Inr new_user \<and>
                py_subscript new_user ''primaryEmail'' = Inr primary)"
    using sub by metis
  show ?thesis
    unfolding ans run google_try_cases [of cfg domain group_key w email body, OF assms(6,7)]
      assms(9,10) group_member_body_def [symmetric]
    by (auto simp add: google_handler_False requests_of_def split: sum.splits)
qed

theorem directory_create_then_add_member_witness:
  "google_ready friendly_world GOOGLE_WORKSPACE_CONFIG \<and>
   new_employee_data ''email'' = Some ''newhire123@yourcorpdomain.com'' \<and>
   new_employee_data ''first_name'' = Some ''John'' \<and>
   new_employee_data ''last_name'' = Some ''Doe'' \<and>
   GOOGLE_WORKSPACE_CONFIG ''default_org_unit'' = Some (PStr ''/Users'') \<and>
   GOOGLE_WORKSPACE_CONFIG ''domain'' = Some (PStr ''yourcorpdomain.com'') \<and>
   GOOGLE_WORKSPACE_CONFIG ''onboarding_group_email'' =
     Some (PStr ''all-employees@yourcorpdomain.com'') \<and>
   fst (onboard_google_workspace friendly_world new_employee_data GOOGLE_WORKSPACE_CONFIG) =
     Inr True \<and>
   requests_of
     (snd (onboard_google_workspace friendly_world new_employee_data GOOGLE_WORKSPACE_CONFIG)) =
     [UsersInsert (PStr ''yourcorpdomain.com'')
        (PDict [(''primaryEmail'', PStr ''newhire123@yourcorpdomain.com''),
                (''name'', PDict [(''givenName'', PStr ''John''),
                                  (''familyName'', PStr ''Doe'')]),
                (''password'', PStr ''DefaultWelcome1!''),
                (''orgUnitPath'', PStr ''/Users/New Employees''),
                (''changePasswordAtNextLogin'', PBool True)]),
      GroupsInsert (PStr ''all-employees@yourcorpdomain.com'')
        (PDict [(''email'', PStr ''newhire123@yourcorpdomain.com''),
                (''role'', PStr ''MEMBER'')])]"
proof -
  have ready: "google_ready friendly_world GOOGLE_WORKSPACE_CONFIG"
    by (simp add: google_ready_def friendly_world_def GOOGLE_WORKSPACE_CONFIG_def)
  have ud: "new_employee_data ''email'' = Some ''newhire123@yourcorpdomain.com''"
    "new_employee_data ''first_name'' = Some ''John''"
    "new_employee_data ''last_name'' = Some ''Doe''"
    by (simp_all add: new_employee_data_def)
  have cfg: "GOOGLE_WORKSPACE_CONFIG ''default_org_unit'' = Some (PStr ''/Users'')"
    "GOOGLE_WORKSPACE_CONFIG ''domain'' = Some (PStr ''yourcorpdomain.com'')"
    "GOOGLE_WORKSPACE_CONFIG ''onboarding_group_email'' =
       Some (PStr ''all-employees@yourcorpdomain.com'')"
    by (simp_all add: GOOGLE_WORKSPACE_CONFIG_def)
  have body: "PDict [(''primaryEmail'', PStr ''newhire123@yourcorpdomain.com''),
                (''name'', PDict [(''givenName'', PStr ''John''),
                                  (''familyName'', PStr ''Doe'')]),
                (''password'', PStr ''DefaultWelcome1!''),
                (''orgUnitPath'', PStr ''/Users/New Employees''),
                (''changePasswordAtNextLogin'', PBool True)] =
      PDict [(''primaryEmail'', PStr ''newhire123@yourcorpdomain.com''),
                (''name'', PDict [(''givenName'', PStr ''John''),
                                  (''familyName'', PStr ''Doe'')]),
                (''password'',
                 PStr (case new_employee_data ''password'' of
                         None \<Rightarrow> ''DefaultWelcome1!'' | Some p \<Rightarrow> p)),
                (''orgUnitPath'',
                 (case new_employee_data ''org_unit'' of
                    None \<Rightarrow> PStr ''/Users'' | Some u \<Rightarrow> PStr u)),
                (''changePasswordAtNextLogin'', PBool True)]"
    by (simp add: new_employee_data_def)
  have answered:
    "\<exists>kvs primary.
       users_insert friendly_world (PStr ''yourcorpdomain.com'')
         (PDict [(''primaryEmail'', PStr ''newhire123@yourcorpdomain.com''),
                (''name'', PDict [(''givenName'', PStr ''John''),
                                  (''familyName'', PStr ''Doe'')]),
                (''password'', PStr ''DefaultWelcome1!''),
                (''orgUnitPath'', PStr ''/Users/New Employees''),
                (''changePasswordAtNextLogin'', PBool True)]) = Inr (PDict kvs) \<and>
       map_of kvs ''primaryEmail'' = Some primary"
    by (simp add: friendly_world_def)
  have added:
    "\<exists>added. groups_insert friendly_world (PStr ''all-employees@yourcorpdomain.com'')
        (PDict [(''email'', PStr ''newhire123@yourcorpdomain.com''),
                (''role'', PStr ''MEMBER'')]) = Inr added"
    by (simp add: friendly_world_def)
  from directory_create_then_add_member
         [OF ready ud cfg body refl refl refl]
  show ?thesis
    using ready ud cfg answered added by blast
qed

text \<open>
  The claim as first written has the second request follow the first whenever the
  first completes. A creation answered without error by a resource that has no
  \<^verbatim>\<open>primaryEmail\<close> is followed by no second request, and the provider returns false.
\<close>

theorem directory_add_member_needs_primary_email:
  "users_insert (creation_answers (PDict [(''id'', PStr ''1'')])) (PStr ''yourcorpdomain.com'')
     (PDict [(''primaryEmail'', PStr ''newhire123@yourcorpdomain.com''),
             (''name'', PDict [(''givenName'', PStr ''John''),
                               (''familyName'', PStr ''Doe'')]),
             (''password'', PStr ''DefaultWelcome1!''),
             (''orgUnitPath'', PStr ''/Users/New Employees''),
             (''changePasswordAtNextLogin'', PBool True)]) =
     Inr (PDict [(''id'', PStr ''1'')]) \<and>
   requests_of
     (snd (onboard_google_workspace (creation_answers (PDict [(''id'', PStr ''1'')]))
             new_employee_data GOOGLE_WORKSPACE_CONFIG)) =
     [UsersInsert (PStr ''yourcorpdomain.com'')
        (PDict [(''primaryEmail'', PStr ''newhire123@yourcorpdomain.com''),
                (''name'', PDict [(''givenName'', PStr ''John''),
                                  (''familyName'', PStr ''Doe'')]),
                (''password'', PStr ''DefaultWelcome1!''),
                (''orgUnitPath'', PStr ''/Users/New Employees''),
                (''changePasswordAtNextLogin'', PBool True)])] \<and>
   fst (onboard_google_workspace (creation_answers (PDict [(''id'', PStr ''1'')]))
          new_employee_data GOOGLE_WORKSPACE_CONFIG) = Inr False"
  by (simp add: onboard_google_workspace_def google_try_def google_handler_def user_body_def
      creation_answers_def requests_of_def example_defs)

text \<open>
  C9. The password of the creation request is the record's \<^verbatim>\<open>password\<close>, or the fixed
  placeholder when the record has none; its org unit is the record's \<^verbatim>\<open>org_unit\<close>, or
  the configuration's default org unit when the record has none.
\<close>

theorem directory_password_and_org_unit_defaults:
  assumes "google_ready w cfg"
      and "ud ''email'' = Some email" and "ud ''first_name'' = Some first_name"
      and "ud ''last_name'' = Some last_name" and "cfg ''default_org_unit'' = Some default_ou"
      and "cfg ''domain'' = Some domain"
  shows "\<exists>rest. snd (onboard_google_workspace w ud cfg) =
           UsersInsert domain
             (PDict [(''primaryEmail'', PStr email),
                     (''name'', PDict [(''givenName'', PStr first_name),
                                       (''familyName'', PStr last_name)]),
                     (''password'',
                      PStr (case ud ''password'' of
                              None \<Rightarrow> ''DefaultWelcome1!'' | Some p \<Rightarrow> p)),
                     (''orgUnitPath'',
                      (case ud ''org_unit'' of None \<Rightarrow> default_ou | Some u \<Rightarrow> PStr u)),
                     (''changePasswordAtNextLogin'', PBool True)]) # rest"
proof -
  have run: "onboard_google_workspace w ud cfg =
          try_except
             (google_try w cfg email
                (user_body email first_name last_name
                   (case ud ''password'' of None \<Rightarrow> ''DefaultWelcome1!'' | Some p \<Rightarrow> p)
                   (case ud ''org_unit'' of None \<Rightarrow> default_ou | Some u \<Rightarrow> PStr u)))
             (google_handler email)"
    using assms google_reaches_try [of w cfg ud email first_name last_name default_ou]
    by (simp add: password_or_placeholder org_unit_or_default)
  obtain rest where
    "snd (google_try w cfg email
            (user_body email first_name last_name
               (case ud ''password'' of None \<Rightarrow> ''DefaultWelcome1!'' | Some p \<Rightarrow> p)
               (case ud ''org_unit'' of None \<Rightarrow> default_ou | Some u \<Rightarrow> PStr u))) =
       UsersInsert domain
         (user_body email first_name last_name
            (case ud ''password'' of None \<Rightarrow> ''DefaultWelcome1!'' | Some p \<Rightarrow> p)
            (case ud ''org_unit'' of None \<Rightarrow> default_ou | Some u \<Rightarrow> PStr u)) # rest"
    using assms(6) google_try_first_request [of cfg domain w email] by blast
  then show ?thesis
    unfolding run snd_try_except by (simp add: user_body_def)
qed

theorem directory_password_and_org_unit_defaults_witness:
  "google_ready friendly_world GOOGLE_WORKSPACE_CONFIG \<and>
   [''email'' \<mapsto> ''a@yourcorpdomain.com'', ''first_name'' \<mapsto> ''A'', ''last_name'' \<mapsto> ''B'']
     ''password'' = None \<and>
   (\<exists>rest. snd (onboard_google_workspace friendly_world
                 [''email'' \<mapsto> ''a@yourcorpdomain.com'', ''first_name'' \<mapsto> ''A'',
                  ''last_name'' \<mapsto> ''B'']
                 GOOGLE_WORKSPACE_CONFIG) =
      UsersInsert (PStr ''yourcorpdomain.com'')
        (PDict [(''primaryEmail'', PStr ''a@yourcorpdomain.com''),
                (''name'', PDict [(''givenName'', PStr ''A''), (''familyName'', PStr ''B'')]),
                (''password'', PStr ''DefaultWelcome1!''),
                (''orgUnitPath'', PStr ''/Users''),
                (''changePasswordAtNextLogin'', PBool True)]) # rest) \<and>
   (\<exists>rest. snd (onboard_google_workspace friendly_world
                 [''email'' \<mapsto> ''a@yourcorpdomain.com'', ''first_name'' \<mapsto> ''A'',
                  ''last_name'' \<mapsto> ''B'', ''password'' \<mapsto> ''S3cret!'',
                  ''org_unit'' \<mapsto> ''/Users/Sales'']
                 GOOGLE_WORKSPACE_CONFIG) =
      UsersInsert (PStr ''yourcorpdomain.com'')
        (PDict [(''primaryEmail'', PStr ''a@yourcorpdomain.com''),
                (''name'', PDict [(''givenName'', PStr ''A''), (''familyName'', PStr ''B'')]),
                (''password'', PStr ''S3cret!''),
                (''orgUnitPath'', PStr ''/Users/Sales''),
                (''changePasswordAtNextLogin'', PBool True)]) # rest)"
proof -
  have ready: "google_ready friendly_world GOOGLE_WORKSPACE_CONFIG"
    by (simp add: google_ready_def friendly_world_def GOOGLE_WORKSPACE_CONFIG_def)
  have cfg: "GOOGLE_WORKSPACE_CONFIG ''default_org_unit'' = Some (PStr ''/Users'')"
    "GOOGLE_WORKSPACE_CONFIG ''domain'' = Some (PStr ''yourcorpdomain.com'')"
    by (simp_all add: GOOGLE_WORKSPACE_CONFIG_def)
  from directory_password_and_org_unit_defaults
         [of friendly_world GOOGLE_WORKSPACE_CONFIG
             "[''email'' \<mapsto> ''a@yourcorpdomain.com'', ''first_name'' \<mapsto> ''A'',
               ''last_name'' \<mapsto> ''B'']"
             "''a@yourcorpdomain.com''" "''A''" "''B''" "PStr ''/Users''"
             "PStr ''yourcorpdomain.com''"]
       directory_password_and_org_unit_defaults
         [of friendly_world GOOGLE_WORKSPACE_CONFIG
             "[''email'' \<mapsto> ''a@yourcorpdomain.com'', ''first_name'' \<mapsto> ''A'',
               ''last_name'' \<mapsto> ''B'', ''password'' \<mapsto> ''S3cret!'',
               ''org_unit'' \<mapsto> ''/Users/Sales'']"
             "''a@yourcorpdomain.com''" "''A''" "''B''" "PStr ''/Users''"
             "PStr ''yourcorpdomain.com''"]
  show ?thesis
    using ready cfg by simp
qed


section \<open>The file-share provider and its two handlers\<close>

lemma dropbox_reaches_try:
  assumes "installed w ''requests''" and "cfg ''access_token'' = Some access_token"
      and "ud ''email'' = Some email" and "cfg ''onboarding_folder_path'' = Some folder_path"
  shows "onboard_dropbox w ud cfg =
           try_except (dropbox_try w email folder_path (bearer_headers (Fmt access_token)))
             (dropbox_handler email)"
  using assms by (simp add: onboard_dropbox_def import_module_def)

lemma dropbox_http_failure:
  assumes "installed w ''requests''" and "cfg ''access_token'' = Some access_token"
      and "ud ''email'' = Some email" and "cfg ''onboarding_folder_path'' = Some folder_path"
      and "http_post w dropbox_url (bearer_headers (Fmt access_token))
             (dropbox_payload folder_path email) = Inr r"
      and "400 \<le> status_code r" and "status_code r < 600"
  shows "onboard_dropbox w ud cfg =
           (Inr False,
            [HttpPost dropbox_url (bearer_headers (Fmt access_token))
               (dropbox_payload folder_path email),
             Logged ERROR [Txt ''Error inviting '', Txt email, Txt '' to Dropbox folder: '',
                           FmtExn (HTTPError (status_code r))]])"
  using assms
  by (simp add: dropbox_reaches_try [of w cfg access_token ud email folder_path]
      dropbox_try_def dropbox_handler_def raise_for_status_def read_local_def)

lemma dropbox_never_logs_decode_message:
  "Logged ERROR (Txt ''Error decoding Dropbox response for '' # rest)
     \<notin> set (snd (onboard_dropbox w ud cfg))"
  by (simp add: onboard_dropbox_def dropbox_try_def dropbox_handler_def andthen_def
      try_except_def lift_def call_def emit_def ret_def read_local_def
      split: sum.splits)

text \<open>
  C5. A failure to decode the response body is not reported by \<^verbatim>\<open>onboard_dropbox\<close>. A
  response with status 200 whose body cannot be decoded gives the outcome true and the
  information line, since the body is never read. When a decode error does reach the
  second \<^verbatim>\<open>except\<close> clause, building its message reads the unbound local \<^verbatim>\<open>e\<close>, so the
  function raises \<^verbatim>\<open>UnboundLocalError\<close>: it logs nothing and returns nothing.
\<close>

theorem dropbox_decode_failure_not_reported:
  "fst (onboard_dropbox
          (post_gives (Inr \<lparr>status_code = 200, json_result = Inl JSONDecodeError\<rparr>))
          new_employee_data
          (DROPBOX_CONFIG
             (post_gives (Inr \<lparr>status_code = 200, json_result = Inl JSONDecodeError\<rparr>)))) =
     Inr True \<and>
   logs_of (snd (onboard_dropbox
          (post_gives (Inr \<lparr>status_code = 200, json_result = Inl JSONDecodeError\<rparr>))
          new_employee_data
          (DROPBOX_CONFIG
             (post_gives (Inr \<lparr>status_code = 200, json_result = Inl JSONDecodeError\<rparr>))))) =
     [Logged INFO [Txt ''Invited '', Txt ''newhire123@yourcorpdomain.com'',
                   Txt '' to Dropbox folder: '', Fmt (PStr ''/Company Shared/New Starters'')]] \<and>
   fst (onboard_dropbox (post_gives (Inl JSONDecodeError)) new_employee_data
          (DROPBOX_CONFIG (post_gives (Inl JSONDecodeError)))) =
     Inl (UnboundLocalError ''e'') \<and>
   logs_of (snd (onboard_dropbox (post_gives (Inl JSONDecodeError)) new_employee_data
          (DROPBOX_CONFIG (post_gives (Inl JSONDecodeError))))) = []"
  by (simp add: onboard_dropbox_def dropbox_try_def dropbox_handler_def logs_of_def
      example_defs)


section \<open>The chat provider and its acknowledgment\<close>

lemma slack_reaches_try:
  assumes "installed w ''requests''" and "cfg ''bot_token'' = Some bot_token"
      and "cfg ''welcome_channel'' = Some channel_name"
      and "ud ''email'' = Some email" and "ud ''first_name'' = Some first_name"
      and "ud ''last_name'' = Some last_name"
  shows "welcome_slack_user w ud cfg =
           try_except
             (slack_try w email channel_name (bearer_headers (Fmt bot_token))
                (slack_payload channel_name (welcome_message email first_name last_name)))
             (slack_handler email)"
  using assms by (simp add: welcome_slack_user_def import_module_def)

lemma slack_handler_not_True: "fst (slack_handler email e) \<noteq> Inr True"
  by (simp add: slack_handler_def read_local_def)

lemma slack_try_True:
  assumes "fst (slack_try w email channel_name headers payload) = Inr True"
  shows "\<exists>r kvs. http_post w slack_api_url headers payload = Inr r \<and>
           \<not> (400 \<le> status_code r \<and> status_code r < 600) \<and>
           json_result r = Inr (PDict kvs) \<and>
           truthy (dict_get (map_of kvs) ''ok'' PNone)"
proof -
  obtain r where r: "http_post w slack_api_url headers payload = Inr r"
    using assms by (cases "http_post w slack_api_url headers payload")
      (simp_all add: slack_try_def)
  have st: "\<not> (400 \<le> status_code r \<and> status_code r < 600)"
    using assms r by (auto simp add: slack_try_def raise_for_status_def split: if_splits)
  then have rs: "raise_for_status r = Inr ()"
    by (simp add: raise_for_status_def)
  obtain data where d: "json_result r = Inr data"
    using assms r rs by (cases "json_result r") (simp_all add: slack_try_def)
  obtain kvs where k: "data = PDict kvs"
    using assms r rs d by (cases data) (simp_all add: slack_try_def)
  have "truthy (dict_get (map_of kvs) ''ok'' PNone)"
    using assms r rs d k by (auto simp add: slack_try_def split: if_splits)
  with r st d k show ?thesis by blast
qed

lemma slack_try_True_events:
  assumes "fst (slack_try w email channel_name headers payload) = Inr True"
  shows "snd (slack_try w email channel_name headers payload) =
           [HttpPost slack_api_url headers payload,
            Logged INFO [Txt ''Welcome message sent to '', Fmt channel_name,
                         Txt '' for '', Txt email]]"
proof -
  obtain r kvs where r: "http_post w slack_api_url headers payload = Inr r"
    and st: "\<not> (400 \<le> status_code r \<and> status_code r < 600)"
    and d: "json_result r = Inr (PDict kvs)"
    and ok: "truthy (dict_get (map_of kvs) ''ok'' PNone)"
    using slack_try_True [OF assms] by blast
  then show ?thesis
    by (simp add: slack_try_def raise_for_status_def)
qed

text \<open>
  C6, as amended. \<^verbatim>\<open>welcome_slack_user\<close> returns true only when the one request it
  sent, its welcome message to the configured channel, was answered with a status
  outside the classes 4xx and 5xx and a body that is a JSON object whose \<^verbatim>\<open>ok\<close> member
  is truthy. Given a response of status 200 with the body
  \<^verbatim>\<open>{"ok": false, "error": "channel_not_found"}\<close> it returns false and logs an error
  line carrying the error code of the body.
\<close>

theorem slack_true_only_when_accepted:
  "(fst (welcome_slack_user w ud cfg) = Inr True \<longrightarrow>
      (\<exists>bot_token channel_name email first_name last_name r kvs.
          cfg ''bot_token'' = Some bot_token \<and> cfg ''welcome_channel'' = Some channel_name \<and>
          ud ''email'' = Some email \<and> ud ''first_name'' = Some first_name \<and>
          ud ''last_name'' = Some last_name \<and>
          snd (welcome_slack_user w ud cfg) =
            [HttpPost [Txt ''https://slack.com/api/chat.postMessage'']
               [(''Authorization'', [Txt ''Bearer '', Fmt bot_token]),
                (''Content-Type'', [Txt ''application/json''])]
               (PDict [(''channel'', channel_name),
                       (''text'',
                        PStr (''Welcome to the team, <mailto:'' @ email @ ''|'' @ first_name @
                              '' '' @ last_name @
                              ''>! Please introduce yourself in this channel.''))]),
             Logged INFO [Txt ''Welcome message sent to '', Fmt channel_name,
                          Txt '' for '', Txt email]] \<and>
          http_post w [Txt ''https://slack.com/api/chat.postMessage'']
            [(''Authorization'', [Txt ''Bearer '', Fmt bot_token]),
             (''Content-Type'', [Txt ''application/json''])]
            (PDict [(''channel'', channel_name),
                    (''text'',
                     PStr (''Welcome to the team, <mailto:'' @ email @ ''|'' @ first_name @
                           '' '' @ last_name @
                           ''>! Please introduce yourself in this channel.''))]) = Inr r \<and>
          \<not> (400 \<le> status_code r \<and> status_code r < 600) \<and>
          json_result r = Inr (PDict kvs) \<and>
          truthy (case map_of kvs ''ok'' of None \<Rightarrow> PNone | Some v \<Rightarrow> v))) \<and>
   (installed w ''requests'' \<and> cfg ''bot_token'' = Some bot_token \<and>
    cfg ''welcome_channel'' = Some channel_name \<and> ud ''email'' = Some email \<and>
    ud ''first_name'' = Some first_name \<and> ud ''last_name'' = Some last_name \<and>
    http_post w [Txt ''https://slack.com/api/chat.postMessage'']
      [(''Authorization'', [Txt ''Bearer '', Fmt bot_token]),
       (''Content-Type'', [Txt ''application/json''])]
      (PDict [(''channel'', channel_name),
              (''text'',
               PStr (''Welcome to the team, <mailto:'' @ email @ ''|'' @ first_name @
                     '' '' @ last_name @
                     ''>! Please introduce yourself in this channel.''))]) =
      Inr \<lparr>status_code = 200,
           json_result = Inr (PDict [(''ok'', PBool False),
                                     (''error'', PStr ''channel_not_found'')])\<rparr> \<longrightarrow>
      welcome_slack_user w ud cfg =
        (Inr False,
         [HttpPost [Txt ''https://slack.com/api/chat.postMessage'']
            [(''Authorization'', [Txt ''Bearer '', Fmt bot_token]),
             (''Content-Type'', [Txt ''application/json''])]
            (PDict [(''channel'', channel_name),
                    (''text'',
                     PStr (''Welcome to the team, <mailto:'' @ email @ ''|'' @ first_name @
                           '' '' @ last_name @
                           ''>! Please introduce yourself in this channel.''))]),
          Logged ERROR [Txt ''Failed to send welcome message to Slack for '', Txt email,
                        Txt '': '', Fmt (PStr ''channel_not_found'')]]))"
proof (intro conjI impI)
  assume t: "fst (welcome_slack_user w ud cfg) = Inr True"
  show "\<exists>bot_token channel_name email first_name last_name r kvs.
          cfg ''bot_token'' = Some bot_token \<and> cfg ''welcome_channel'' = Some channel_name \<and>
          ud ''email'' = Some email \<and> ud ''first_name'' = Some first_name \<and>
          ud ''last_name'' = Some last_name \<and>
          snd (welcome_slack_user w ud cfg) =
            [HttpPost [Txt ''https://slack.com/api/chat.postMessage'']
               [(''Authorization'', [Txt ''Bearer '', Fmt bot_token]),
                (''Content-Type'', [Txt ''application/json''])]
               (PDict [(''channel'', channel_name),
                       (''text'',
                        PStr (''Welcome to the team, <mailto:'' @ email @ ''|'' @ first_name @
                              '' '' @ last_name @
                              ''>! Please introduce yourself in this channel.''))]),
             Logged INFO [Txt ''Welcome message sent to '', Fmt channel_name,
                          Txt '' for '', Txt email]] \<and>
          http_post w [Txt ''https://slack.com/api/chat.postMessage'']
            [(''Authorization'', [Txt ''Bearer '', Fmt bot_token]),
             (''Content-Type'', [Txt ''application/json''])]
            (PDict [(''channel'', channel_name),
                    (''text'',
                     PStr (''Welcome to the team, <mailto:'' @ email @ ''|'' @ first_name @
                           '' '' @ last_name @
                           ''>! Please introduce yourself in this channel.''))]) = Inr r \<and>
          \<not> (400 \<le> status_code r \<and> status_code r < 600) \<and>
          json_result r = Inr (PDict kvs) \<and>
          truthy (case map_of kvs ''ok'' of None \<Rightarrow> PNone | Some v \<Rightarrow> v)"
  proof (cases "installed w ''requests''"; cases "cfg ''bot_token''";
         cases "cfg ''welcome_channel''"; cases "ud ''email''"; cases "ud ''first_name''";
         cases "ud ''last_name''")
    fix bot_token channel_name email first_name last_name
    assume a: "installed w ''requests''" "cfg ''bot_token'' = Some bot_token"
      "cfg ''welcome_channel'' = Some channel_name" "ud ''email'' = Some email"
      "ud ''first_name'' = Some first_name" "ud ''last_name'' = Some last_name"
    let ?headers = "bearer_headers (Fmt bot_token)"
    let ?payload = "slack_payload channel_name (welcome_message email first_name last_name)"
    let ?body = "slack_try w email channel_name ?headers ?payload"
    have run: "welcome_slack_user w ud cfg = try_except ?body (slack_handler email)"
      using a slack_reaches_try [of w cfg bot_token channel_name ud email first_name last_name]
      by simp
    have tb: "fst ?body = Inr True"
      using t slack_handler_not_True [of email] unfolding run
      by (cases "fst ?body") (auto simp add: try_except_def)
    have evs: "snd (welcome_slack_user w ud cfg) =
                 [HttpPost slack_api_url ?headers ?payload,
                  Logged INFO [Txt ''Welcome message sent to '', Fmt channel_name,
                               Txt '' for '', Txt email]]"
      unfolding run using tb slack_try_True_events [OF tb] by (simp add: try_except_def)
    obtain r kvs where "http_post w slack_api_url ?headers ?payload = Inr r"
      "\<not> (400 \<le> status_code r \<and> status_code r < 600)"
      "json_result r = Inr (PDict kvs)" "truthy (dict_get (map_of kvs) ''ok'' PNone)"
      using slack_try_True [OF tb] by blast
    with a evs show ?thesis
      by (simp add: slack_api_url_def bearer_headers_def slack_payload_def
          welcome_message_def dict_get_def)
  qed (use t in \<open>simp_all add: welcome_slack_user_def import_module_def\<close>)
next
  assume "installed w ''requests'' \<and> cfg ''bot_token'' = Some bot_token \<and>
    cfg ''welcome_channel'' = Some channel_name \<and> ud ''email'' = Some email \<and>
    ud ''first_name'' = Some first_name \<and> ud ''last_name'' = Some last_name \<and>
    http_post w [Txt ''https://slack.com/api/chat.postMessage'']
      [(''Authorization'', [Txt ''Bearer '', Fmt bot_token]),
       (''Content-Type'', [Txt ''application/json''])]
      (PDict [(''channel'', channel_name),
              (''text'',
               PStr (''Welcome to the team, <mailto:'' @ email @ ''|'' @ first_name @
                     '' '' @ last_name @
                     ''>! Please introduce yourself in this channel.''))]) =
      Inr \<lparr>status_code = 200,
           json_result = Inr (PDict [(''ok'', PBool False),
                                     (''error'', PStr ''channel_not_found'')])\<rparr>"
  then show "welcome_slack_user w ud cfg =
        (Inr False,
         [HttpPost [Txt ''https://slack.com/api/chat.postMessage'']
            [(''Authorization'', [Txt ''Bearer '', Fmt bot_token]),
             (''Content-Type'', [Txt ''application/json''])]
            (PDict [(''channel'', channel_name),
                    (''text'',
                     PStr (''Welcome to the team, <mailto:'' @ email @ ''|'' @ first_name @
                           '' '' @ last_name @
                           ''>! Please introduce yourself in this channel.''))]),
          Logged ERROR [Txt ''Failed to send welcome message to Slack for '', Txt email,
                        Txt '': '', Fmt (PStr ''channel_not_found'')]])"
    by (simp add: welcome_slack_user_def import_module_def slack_try_def
        raise_for_status_def dict_get_def slack_api_url_def bearer_headers_def
        slack_payload_def welcome_message_def)
qed

theorem slack_true_only_when_accepted_witness:
  "fst (welcome_slack_user friendly_world new_employee_data (SLACK_CONFIG friendly_world)) =
     Inr True \<and>
   (\<exists>r kvs.
       http_post friendly_world [Txt ''https://slack.com/api/chat.postMessage'']
         [(''Authorization'', [Txt ''Bearer '', Fmt (PStr ''xoxb'')]),
          (''Content-Type'', [Txt ''application/json''])]
         (PDict [(''channel'', PStr ''#general-announcements''),
                 (''text'',
                  PStr (''Welcome to the team, <mailto:'' @ ''newhire123@yourcorpdomain.com'' @
                        ''|'' @ ''John'' @ '' '' @ ''Doe'' @
                        ''>! Please introduce yourself in this channel.''))]) = Inr r \<and>
       \<not> (400 \<le> status_code r \<and> status_code r < 600) \<and>
       json_result r = Inr (PDict kvs) \<and>
       truthy (case map_of kvs ''ok'' of None \<Rightarrow> PNone | Some v \<Rightarrow> v)) \<and>
   installed
     (post_gives (Inr \<lparr>status_code = 200,
                        json_result = Inr (PDict [(''ok'', PBool False),
                                                  (''error'', PStr ''channel_not_found'')])\<rparr>))
     ''requests'' \<and>
   welcome_slack_user
     (post_gives (Inr \<lparr>status_code = 200,
                        json_result = Inr (PDict [(''ok'', PBool False),
                                                  (''error'', PStr ''channel_not_found'')])\<rparr>))
     new_employee_data
     (map_of [(''bot_token'', PStr ''xoxb''), (''welcome_channel'', PStr ''#general'')]) =
     (Inr False,
      [HttpPost [Txt ''https://slack.com/api/chat.postMessage'']
         [(''Authorization'', [Txt ''Bearer '', Fmt (PStr ''xoxb'')]),
          (''Content-Type'', [Txt ''application/json''])]
         (PDict [(''channel'', PStr ''#general''),
                 (''text'',
                  PStr (''Welcome to the team, <mailto:'' @ ''newhire123@yourcorpdomain.com'' @
                        ''|'' @ ''John'' @ '' '' @ ''Doe'' @
                        ''>! Please introduce yourself in this channel.''))]),
       Logged ERROR [Txt ''Failed to send welcome message to Slack for '',
                     Txt ''newhire123@yourcorpdomain.com'', Txt '': '',
                     Fmt (PStr ''channel_not_found'')]])"
proof -
  have t: "fst (welcome_slack_user friendly_world new_employee_data
                  (SLACK_CONFIG friendly_world)) = Inr True"
    by (simp add: welcome_slack_user_def slack_try_def example_defs)
  have c: "SLACK_CONFIG friendly_world ''bot_token'' = Some (PStr ''xoxb'')"
    "SLACK_CONFIG friendly_world ''welcome_channel'' = Some (PStr ''#general-announcements'')"
    by (simp_all add: example_defs)
  have h: "installed
     (post_gives (Inr \<lparr>status_code = 200,
                        json_result = Inr (PDict [(''ok'', PBool False),
                                                  (''error'', PStr ''channel_not_found'')])\<rparr>))
     ''requests''"
    by (simp add: example_defs)
  have p: "http_post
     (post_gives (Inr \<lparr>status_code = 200,
                        json_result = Inr (PDict [(''ok'', PBool False),
                                                  (''error'', PStr ''channel_not_found'')])\<rparr>))
     u hd b =
     Inr \<lparr>status_code = 200,
          json_result = Inr (PDict [(''ok'', PBool False),
                                    (''error'', PStr ''channel_not_found'')])\<rparr>" for u hd b
    by (simp add: post_gives_def)
  have ud: "new_employee_data ''email'' = Some ''newhire123@yourcorpdomain.com''"
    "new_employee_data ''first_name'' = Some ''John''"
    "new_employee_data ''last_name'' = Some ''Doe''"
    by (simp_all add: new_employee_data_def)
  from slack_true_only_when_accepted
         [where w = friendly_world and ud = new_employee_data
            and cfg = "SLACK_CONFIG friendly_world"]
       slack_true_only_when_accepted
         [where w = "post_gives (Inr \<lparr>status_code = 200,
                        json_result = Inr (PDict [(''ok'', PBool False),
                                                  (''error'', PStr ''channel_not_found'')])\<rparr>)"
            and ud = new_employee_data
            and cfg = "map_of [(''bot_token'', PStr ''xoxb''),
                               (''welcome_channel'', PStr ''#general'')]"
            and bot_token = "PStr ''xoxb''" and channel_name = "PStr ''#general''"
            and email = "''newhire123@yourcorpdomain.com''" and first_name = "''John''"
            and last_name = "''Doe''"]
  show ?thesis
    using t c h p ud by auto
qed

text \<open>
  The claim as first written asks for a 2xx status and for \<^verbatim>\<open>ok\<close> to be true. The
  function also returns true on a response of status 300, and on a body whose \<^verbatim>\<open>ok\<close>
  member is the text \<^verbatim>\<open>"false"\<close>.
\<close>

theorem slack_true_without_2xx:
  "fst (welcome_slack_user
          (post_gives (Inr \<lparr>status_code = 300,
                             json_result = Inr (PDict [(''ok'', PBool True)])\<rparr>))
          new_employee_data
          (SLACK_CONFIG
             (post_gives (Inr \<lparr>status_code = 300,
                                json_result = Inr (PDict [(''ok'', PBool True)])\<rparr>)))) =
     Inr True \<and>
   \<not> is_2xx \<lparr>status_code = 300, json_result = Inr (PDict [(''ok'', PBool True)])\<rparr> \<and>
   fst (welcome_slack_user
          (post_gives (Inr \<lparr>status_code = 200,
                             json_result = Inr (PDict [(''ok'', PStr ''false'')])\<rparr>))
          new_employee_data
          (SLACK_CONFIG
             (post_gives (Inr \<lparr>status_code = 200,
                                json_result = Inr (PDict [(''ok'', PStr ''false'')])\<rparr>)))) =
     Inr True \<and>
   \<not> ok_is_true \<lparr>status_code = 200, json_result = Inr (PDict [(''ok'', PStr ''false'')])\<rparr>"
  by (simp add: welcome_slack_user_def slack_try_def is_2xx_def ok_is_true_def example_defs)

end
